theory Spec2Isabelle
  imports Main
begin

section \<open>Values, the environment and the world\<close>

text \<open>
  The script \<open>run_pipeline.py\<close> is embedded as state-passing functions over a
  \<open>world\<close>. Python \<open>bytes\<close> and \<open>str\<close> are lists of 8-bit characters (text is
  restricted to the code points below 256, which is exactly what \<open>decode('latin-1')\<close>
  produces). A \<open>Path\<close> is its list of components below the file-system root. An
  exception is the text that \<open>print(f"{e}")\<close> would show; a computation that may raise
  returns \<open>exn + 'a\<close> with \<open>Inl\<close> for the exception. Only exceptions that
  \<open>except Exception\<close> catches are modelled: interrupts and signals are not.
\<close>

type_synonym bytes = string
type_synonym path = "string list"
type_synonym exn = string
type_synonym filesystem = "path \<rightharpoonup> bytes"

datatype completed = CompletedProcess (returncode: int) (stdout: string) (stderr: string)

datatype event =
    Spawn "string list"
  | Exists path
  | Unlink path
  | Rename path path
  | Mkdir path
  | Copy path path
  | Open path
  | Move path path

text \<open>
  Everything outside the script is an oracle, indexed by the number of operations issued
  so far: \<open>spawn\<close> answers \<open>subprocess.run\<close> (either the exception it raises or the
  completed process, together with the files the child left behind), \<open>fault\<close> says
  whether the operating system fails a file operation for a reason the regular-file map
  does not represent (permissions, a directory in the way, an I/O or decoding error).
  \<open>int_max_str_digits\<close> is the interpreter's limit on \<open>int(str)\<close> (0: no limit;
  CPython 3.11 ships 4300).
\<close>

record env =
  base_dir :: path
  spawn :: "nat \<Rightarrow> string list \<Rightarrow> string option \<Rightarrow> string option \<Rightarrow> filesystem
            \<Rightarrow> (exn + completed) \<times> filesystem"
  fault :: "nat \<Rightarrow> exn option"
  int_max_str_digits :: nat

record world =
  files :: filesystem
  console :: "string list"
  events :: "event list"

definition now :: "world \<Rightarrow> nat" where
  "now w = length (events w)"

definition log :: "event \<Rightarrow> world \<Rightarrow> world" where
  "log ev w = w\<lparr>events := events w @ [ev]\<rparr>"

definition prints :: "string list \<Rightarrow> world \<Rightarrow> world" where
  "prints ss w = w\<lparr>console := console w @ ss\<rparr>"

definition print :: "string \<Rightarrow> world \<Rightarrow> world" where
  "print s w = prints [s] w"

definition str_path :: "path \<Rightarrow> string" where
  "str_path p = (if p = [] then ''/'' else concat (map (\<lambda>c. CHR ''/'' # c) p))"

definition subprocess_run ::
  "env \<Rightarrow> string list \<Rightarrow> string option \<Rightarrow> string option \<Rightarrow> world \<Rightarrow> (exn + completed) \<times> world" where
  "subprocess_run e cmd cwd input_text w =
     (case spawn e (now w) cmd cwd input_text (files w) of
        (r, fs) \<Rightarrow> (r, (log (Spawn cmd) w)\<lparr>files := fs\<rparr>))"

definition read_bytes :: "env \<Rightarrow> path \<Rightarrow> world \<Rightarrow> (exn + bytes) \<times> world" where
  "read_bytes e p w =
     (case fault e (now w) of
        Some x \<Rightarrow> (Inl x, log (Open p) w)
      | None \<Rightarrow>
          (case files w p of
             None \<Rightarrow> (Inl ''FileNotFoundError'', log (Open p) w)
           | Some content \<Rightarrow> (Inr content, log (Open p) w)))"

section \<open>Library functions used by the page-count resolver\<close>

text \<open>\<open>bytes.count(sub)\<close>: the number of non-overlapping occurrences, scanning from the left.\<close>

function py_count :: "'a list \<Rightarrow> 'a list \<Rightarrow> nat" where
  "py_count s sub =
     (if sub = [] then length s + 1
      else if length s < length sub then 0
      else if take (length sub) s = sub then 1 + py_count (drop (length sub) s) sub
      else py_count (tl s) sub)"
  by pat_completeness auto
termination
  by (relation "measure (\<lambda>(s, sub). length s)") (auto simp: neq_Nil_conv)

declare py_count.simps [simp del]

text \<open>The character classes \<open>\s\<close> and \<open>\d\<close> of a \<open>str\<close> pattern, below code point 256.\<close>

definition isspace :: "char \<Rightarrow> bool" where
  "isspace c = ((of_char c :: nat) \<in> {9, 10, 11, 12, 13, 28, 29, 30, 31, 32, 133, 160})"

definition isdigit :: "char \<Rightarrow> bool" where
  "isdigit c = (48 \<le> (of_char c :: nat) \<and> (of_char c :: nat) \<le> 57)"

fun strip_prefix :: "'a list \<Rightarrow> 'a list \<Rightarrow> 'a list option" where
  "strip_prefix [] s = Some s"
| "strip_prefix (p # ps) [] = None"
| "strip_prefix (p # ps) (c # cs) = (if p = c then strip_prefix ps cs else None)"

text \<open>The group \<open>(\d+)\<close> at the end of a pattern: the longest run of digits, at least one.\<close>

definition group_digits :: "string \<Rightarrow> string option" where
  "group_digits s = (let d = takeWhile isdigit s in if d = [] then None else Some d)"

text \<open>
  A match of each pattern anchored at the start of \<open>s\<close>, giving group 1. White space and
  digits are disjoint and \<open>=\<close> is neither, so the greedy choice of \<open>\s*\<close>, \<open>\s+\<close> and
  \<open>\d+\<close> is the only one that can match and no backtracking is modelled.
\<close>

definition match_mdls :: "string \<Rightarrow> string option" where
  \<comment> \<open>\<open>kMDItemNumberOfPages\s*=\s*(\d+)\<close>\<close>
  "match_mdls s =
     (case strip_prefix ''kMDItemNumberOfPages'' s of
        None \<Rightarrow> None
      | Some r \<Rightarrow>
          (case dropWhile isspace r of
             [] \<Rightarrow> None
           | c # r' \<Rightarrow> if c = CHR ''='' then group_digits (dropWhile isspace r') else None))"

definition match_pdfinfo :: "string \<Rightarrow> string option" where
  \<comment> \<open>\<open>Pages:\s*(\d+)\<close>\<close>
  "match_pdfinfo s =
     (case strip_prefix ''Pages:'' s of
        None \<Rightarrow> None
      | Some r \<Rightarrow> group_digits (dropWhile isspace r))"

definition match_slash_count :: "string \<Rightarrow> string option" where
  \<comment> \<open>\<open>/Count\s+(\d+)\<close>\<close>
  "match_slash_count s =
     (case strip_prefix ''/Count'' s of
        None \<Rightarrow> None
      | Some r \<Rightarrow>
          (case r of
             [] \<Rightarrow> None
           | c # r' \<Rightarrow> if isspace c then group_digits (dropWhile isspace r') else None))"

text \<open>\<open>re.search\<close>: the match at the leftmost position that has one.\<close>

fun re_search :: "(string \<Rightarrow> string option) \<Rightarrow> string \<Rightarrow> string option" where
  "re_search m [] = m []"
| "re_search m (c # cs) = (case m (c # cs) of Some g \<Rightarrow> Some g | None \<Rightarrow> re_search m cs)"

text \<open>
  \<open>int(s)\<close> on the text of a \<open>(\d+)\<close> group. It raises \<open>ValueError\<close> when the text has
  more digits than the interpreter's limit; the program passes it nothing but a
  non-empty run of digits, and any other text is answered with \<open>ValueError\<close> too.
\<close>

definition py_int :: "nat \<Rightarrow> string \<Rightarrow> exn + int" where
  "py_int limit s =
     (if s = [] \<or> \<not> list_all isdigit s then Inl ''ValueError: invalid literal''
      else if 0 < limit \<and> limit < length s then Inl ''ValueError: exceeds the digit limit''
      else Inr (int (foldl (\<lambda>a c. 10 * a + (of_char c - 48)) 0 s)))"

section \<open>The page-count resolver\<close>

text \<open>
  Each \<open>try\<close> block of \<open>get_pdf_page_count\<close> is a function of its own: \<open>Inl\<close> when
  the block raises, \<open>Inr (Some v)\<close> when it executes \<open>return v\<close>, \<open>Inr None\<close> when it
  runs to its end without returning.
\<close>

definition mdls_block :: "env \<Rightarrow> path \<Rightarrow> world \<Rightarrow> (exn + int option) \<times> world" where
  "mdls_block e pdf_path w =
     (case subprocess_run e [''mdls'', ''-name'', ''kMDItemNumberOfPages'', str_path pdf_path]
             None None w of
        (Inl x, w1) \<Rightarrow> (Inl x, w1)
      | (Inr result, w1) \<Rightarrow>
          if returncode result = 0 then
            (case re_search match_mdls (stdout result) of
               Some g \<Rightarrow>
                 (case py_int (int_max_str_digits e) g of
                    Inl x \<Rightarrow> (Inl x, w1)
                  | Inr v \<Rightarrow> (Inr (Some v), w1))
             | None \<Rightarrow> (Inr None, w1))
          else (Inr None, w1))"

definition pdfinfo_block :: "env \<Rightarrow> path \<Rightarrow> world \<Rightarrow> (exn + int option) \<times> world" where
  "pdfinfo_block e pdf_path w =
     (case subprocess_run e [''pdfinfo'', str_path pdf_path] None None w of
        (Inl x, w1) \<Rightarrow> (Inl x, w1)
      | (Inr result, w1) \<Rightarrow>
          if returncode result = 0 then
            (case re_search match_pdfinfo (stdout result) of
               Some g \<Rightarrow>
                 (case py_int (int_max_str_digits e) g of
                    Inl x \<Rightarrow> (Inl x, w1)
                  | Inr v \<Rightarrow> (Inr (Some v), w1))
             | None \<Rightarrow> (Inr None, w1))
          else (Inr None, w1))"

definition marker_block :: "env \<Rightarrow> path \<Rightarrow> world \<Rightarrow> (exn + int option) \<times> world" where
  "marker_block e pdf_path w =
     (case read_bytes e pdf_path w of
        (Inl x, w1) \<Rightarrow> (Inl x, w1)
      | (Inr content, w1) \<Rightarrow>
          (let count = int (py_count content ''/Type /Page'');
               pages_count = int (py_count content ''/Type /Pages'')
           in (Inr (Some (if count > pages_count then count - pages_count else count)), w1)))"

definition slash_count_block :: "env \<Rightarrow> path \<Rightarrow> world \<Rightarrow> (exn + int option) \<times> world" where
  "slash_count_block e pdf_path w =
     (case read_bytes e pdf_path w of
        (Inl x, w1) \<Rightarrow> (Inl x, w1)
      | (Inr content, w1) \<Rightarrow>
          (case re_search match_slash_count content of
             Some g \<Rightarrow>
               (case py_int (int_max_str_digits e) g of
                  Inl x \<Rightarrow> (Inl x, w1)
                | Inr v \<Rightarrow> (Inr (Some v), w1))
           | None \<Rightarrow> (Inr None, w1)))"

text \<open>\<open>except Exception: pass\<close>: a raised exception becomes "no value".\<close>

definition except_pass :: "(exn + 'a option) \<times> world \<Rightarrow> 'a option \<times> world" where
  "except_pass r = (case r of (Inl x, w) \<Rightarrow> (None, w) | (Inr v, w) \<Rightarrow> (v, w))"

definition get_pdf_page_count :: "env \<Rightarrow> path \<Rightarrow> world \<Rightarrow> (exn + int option) \<times> world" where
  "get_pdf_page_count e pdf_path w =
     (case except_pass (mdls_block e pdf_path w) of
        (Some v, w1) \<Rightarrow> (Inr (Some v), w1)
      | (None, w1) \<Rightarrow>
     (case except_pass (pdfinfo_block e pdf_path w1) of
        (Some v, w2) \<Rightarrow> (Inr (Some v), w2)
      | (None, w2) \<Rightarrow>
     (case except_pass (marker_block e pdf_path w2) of
        (Some v, w3) \<Rightarrow> (Inr (Some v), w3)
      | (None, w3) \<Rightarrow>
     (case except_pass (slash_count_block e pdf_path w3) of
        (Some v, w4) \<Rightarrow> (Inr (Some v), w4)
      | (None, w4) \<Rightarrow> (Inr None, w4)))))"

subsection \<open>Occurrences of a marker, in the words of the specification\<close>

text \<open>
  The specification speaks of the number of occurrences of a byte marker. \<open>occurrences\<close>
  counts every position of \<open>s\<close> at which \<open>sub\<close> starts, overlapping or not; it is
  compared below with \<open>py_count\<close>, which is what the code calls. A marker is
  \<open>border_free\<close> when no proper non-empty suffix of it is also a prefix of it, so that
  two occurrences cannot overlap.
\<close>

fun occurrences :: "'a list \<Rightarrow> 'a list \<Rightarrow> nat" where
  "occurrences [] sub = (if sub = [] then 1 else 0)"
| "occurrences (c # cs) sub =
     (if take (length sub) (c # cs) = sub then 1 else 0) + occurrences cs sub"

definition border_free :: "'a list \<Rightarrow> bool" where
  "border_free sub =
     list_all (\<lambda>d. take (length sub - d) sub \<noteq> drop d sub) [1..<length sub]"

subsection \<open>Concrete environments\<close>

text \<open>
  \<open>bare_env\<close>: a machine with neither \<open>mdls\<close> nor \<open>pdfinfo\<close> (every
  \<open>subprocess.run\<close> raises) and no file-system faults. \<open>tools_env\<close>: both tools
  installed, \<open>mdls\<close> reporting 5 pages and \<open>pdfinfo\<close> 7. \<open>pdf_world\<close>: a world
  whose only file is \<open>/output.pdf\<close>.
\<close>

definition bare_env :: env where
  "bare_env =
     \<lparr>base_dir = [''repo''],
      spawn = (\<lambda>t cmd cwd inp fs. (Inl ''FileNotFoundError'', fs)),
      fault = (\<lambda>t. None),
      int_max_str_digits = 4300\<rparr>"

definition tools_env :: env where
  "tools_env =
     \<lparr>base_dir = [''repo''],
      spawn = (\<lambda>t cmd cwd inp fs.
        if cmd = [''mdls'', ''-name'', ''kMDItemNumberOfPages'', ''/output.pdf'']
        then (Inr (CompletedProcess 0 (''kMDItemNumberOfPages = 5'' @ [CHR 0x0A]) []), fs)
        else if cmd = [''pdfinfo'', ''/output.pdf'']
        then (Inr (CompletedProcess 0 (''Pages:          7'' @ [CHR 0x0A]) []), fs)
        else (Inl ''FileNotFoundError'', fs)),
      fault = (\<lambda>t. None),
      int_max_str_digits = 4300\<rparr>"

definition pdf_world :: "bytes \<Rightarrow> world" where
  "pdf_world content = \<lparr>files = [[''output.pdf''] \<mapsto> content], console = [], events = []\<rparr>"

section \<open>File operations and the helpers of the orchestrator\<close>

text \<open>
  The file system is a map from paths to the contents of regular files; directories are
  not represented, so \<open>mkdir\<close> changes nothing. Each operation first asks the \<open>fault\<close>
  oracle, then fails for the reasons the map shows (a missing source), and records itself
  in \<open>events\<close>.
\<close>

definition path_exists :: "env \<Rightarrow> path \<Rightarrow> world \<Rightarrow> (exn + bool) \<times> world" where
  "path_exists e p w =
     (case fault e (now w) of
        Some x \<Rightarrow> (Inl x, log (Exists p) w)
      | None \<Rightarrow> (Inr (files w p \<noteq> None), log (Exists p) w))"

definition unlink :: "env \<Rightarrow> path \<Rightarrow> world \<Rightarrow> (exn + unit) \<times> world" where
  "unlink e p w =
     (case fault e (now w) of
        Some x \<Rightarrow> (Inl x, log (Unlink p) w)
      | None \<Rightarrow>
          (case files w p of
             None \<Rightarrow> (Inl ''FileNotFoundError'', log (Unlink p) w)
           | Some content \<Rightarrow> (Inr (), (log (Unlink p) w)\<lparr>files := (files w)(p := None)\<rparr>)))"

definition rename :: "env \<Rightarrow> path \<Rightarrow> path \<Rightarrow> world \<Rightarrow> (exn + unit) \<times> world" where
  "rename e src dst w =
     (case fault e (now w) of
        Some x \<Rightarrow> (Inl x, log (Rename src dst) w)
      | None \<Rightarrow>
          (case files w src of
             None \<Rightarrow> (Inl ''FileNotFoundError'', log (Rename src dst) w)
           | Some content \<Rightarrow>
               (Inr (), (log (Rename src dst) w)\<lparr>files := ((files w)(src := None))(dst \<mapsto> content)\<rparr>)))"

definition mkdir :: "env \<Rightarrow> path \<Rightarrow> world \<Rightarrow> (exn + unit) \<times> world" where
  \<comment> \<open>\<open>mkdir(parents=True, exist_ok=True)\<close>\<close>
  "mkdir e p w =
     (case fault e (now w) of
        Some x \<Rightarrow> (Inl x, log (Mkdir p) w)
      | None \<Rightarrow> (Inr (), log (Mkdir p) w))"

definition copy2 :: "env \<Rightarrow> path \<Rightarrow> path \<Rightarrow> world \<Rightarrow> (exn + unit) \<times> world" where
  \<comment> \<open>\<open>shutil.copy2\<close>\<close>
  "copy2 e src dst w =
     (case fault e (now w) of
        Some x \<Rightarrow> (Inl x, log (Copy src dst) w)
      | None \<Rightarrow>
          (case files w src of
             None \<Rightarrow> (Inl ''FileNotFoundError'', log (Copy src dst) w)
           | Some content \<Rightarrow>
               if src = dst then (Inl ''SameFileError'', log (Copy src dst) w)
               else (Inr (), (log (Copy src dst) w)\<lparr>files := (files w)(dst \<mapsto> content)\<rparr>)))"

definition move :: "env \<Rightarrow> path \<Rightarrow> path \<Rightarrow> world \<Rightarrow> (exn + unit) \<times> world" where
  \<comment> \<open>\<open>shutil.move\<close> of a regular file onto a file path\<close>
  "move e src dst w =
     (case fault e (now w) of
        Some x \<Rightarrow> (Inl x, log (Move src dst) w)
      | None \<Rightarrow>
          (case files w src of
             None \<Rightarrow> (Inl ''FileNotFoundError'', log (Move src dst) w)
           | Some content \<Rightarrow>
               (Inr (), (log (Move src dst) w)\<lparr>files := ((files w)(src := None))(dst \<mapsto> content)\<rparr>)))"

definition read_text :: "env \<Rightarrow> path \<Rightarrow> world \<Rightarrow> (exn + string) \<times> world" where
  \<comment> \<open>\<open>open(p, 'r', encoding='utf-8')\<close> and \<open>f.read()\<close>; a decoding error is a fault\<close>
  "read_text e p w =
     (case fault e (now w) of
        Some x \<Rightarrow> (Inl x, log (Open p) w)
      | None \<Rightarrow>
          (case files w p of
             None \<Rightarrow> (Inl ''FileNotFoundError'', log (Open p) w)
           | Some content \<Rightarrow> (Inr content, log (Open p) w)))"

subsection \<open>Text formatting\<close>

definition nl :: string where
  "nl = [CHR 0x0A]"

definition rule60 :: string where
  \<comment> \<open>\<open>'='*60\<close>\<close>
  "rule60 = replicate 60 (CHR ''='')"

definition rule70 :: string where
  \<comment> \<open>\<open>"="*70\<close>\<close>
  "rule70 = replicate 70 (CHR ''='')"

definition hashes70 :: string where
  \<comment> \<open>\<open>"#"*70\<close>\<close>
  "hashes70 = replicate 70 (CHR ''#'')"

fun join :: "string \<Rightarrow> string list \<Rightarrow> string" where
  "join sep [] = []"
| "join sep [x] = x"
| "join sep (x # y # ys) = x @ sep @ join sep (y # ys)"

definition digit_char :: "nat \<Rightarrow> char" where
  "digit_char d = ''0123456789'' ! d"

function str_nat :: "nat \<Rightarrow> string" where
  "str_nat n =
     (if n < 10 then [digit_char n]
      else str_nat (n div 10) @ [digit_char (n mod 10)])"
  by pat_completeness auto
termination
  by (relation "measure id") auto

declare str_nat.simps [simp del]

definition str_int :: "int \<Rightarrow> string" where
  "str_int i = (if i < 0 then CHR ''-'' # str_nat (nat (- i)) else str_nat (nat i))"

subsection \<open>\<open>run_command\<close>, \<open>rename_file\<close>, \<open>copy_file\<close>\<close>

definition run_command ::
  "env \<Rightarrow> string list \<Rightarrow> string option \<Rightarrow> string option \<Rightarrow> world \<Rightarrow> bool \<times> world" where
  "run_command e cmd cwd input_text w =
     (let w1 = prints [nl @ rule60, ''Running: '' @ join '' '' cmd] w;
          w2 = (case cwd of
                  None \<Rightarrow> w1
                | Some d \<Rightarrow> if d \<noteq> [] then print (''Working directory: '' @ d) w1 else w1);
          w3 = print rule60 w2
      in case subprocess_run e cmd cwd input_text w3 of
           (Inl x, w4) \<Rightarrow> (False, print (''ERROR: '' @ x) w4)
         | (Inr result, w4) \<Rightarrow>
             (let w5 = print (stdout result) w4;
                  w6 = (if stderr result \<noteq> [] then print (''STDERR: '' @ stderr result) w5 else w5)
              in if returncode result \<noteq> 0
                 then (False, print (''ERROR: Command failed with return code ''
                                       @ str_int (returncode result)) w6)
                 else (True, w6)))"

definition rename_file :: "env \<Rightarrow> path \<Rightarrow> path \<Rightarrow> world \<Rightarrow> bool \<times> world" where
  "rename_file e src dst w =
     (let w1 = prints [nl @ rule60, ''Renaming: '' @ str_path src @ '' -> '' @ str_path dst, rule60] w
      in case path_exists e dst w1 of
           (Inl x, w2) \<Rightarrow> (False, print (''ERROR: Failed to rename file: '' @ x) w2)
         | (Inr present, w2) \<Rightarrow>
             (case (if present then unlink e dst w2 else (Inr (), w2)) of
                (Inl x, w3) \<Rightarrow> (False, print (''ERROR: Failed to rename file: '' @ x) w3)
              | (Inr u, w3) \<Rightarrow>
                  (case rename e src dst w3 of
                     (Inl x, w4) \<Rightarrow> (False, print (''ERROR: Failed to rename file: '' @ x) w4)
                   | (Inr u', w4) \<Rightarrow>
                       (True, print (''Successfully renamed to '' @ str_path dst) w4))))"

definition copy_file :: "env \<Rightarrow> path \<Rightarrow> path \<Rightarrow> world \<Rightarrow> bool \<times> world" where
  "copy_file e src dst w =
     (let w1 = prints [nl @ rule60, ''Copying: '' @ str_path src @ '' -> '' @ str_path dst, rule60] w
      in case mkdir e (butlast dst) w1 of
           (Inl x, w2) \<Rightarrow> (False, print (''ERROR: Failed to copy file: '' @ x) w2)
         | (Inr u, w2) \<Rightarrow>
             (case copy2 e src dst w2 of
                (Inl x, w3) \<Rightarrow> (False, print (''ERROR: Failed to copy file: '' @ x) w3)
              | (Inr u', w3) \<Rightarrow>
                  (True, print (''Successfully copied to '' @ str_path dst) w3)))"

section \<open>The orchestrator\<close>

text \<open>
  \<open>main\<close> is a straight line of twelve numbered blocks. A block either falls through
  to the next one (\<open>Continue\<close>), executes \<open>return n\<close> (\<open>Return n\<close>), or lets an
  exception escape (\<open>Uncaught\<close>). \<open>exit(main())\<close> turns the outcome into the exit code
  of the process; an uncaught exception ends the interpreter with exit code 1.
\<close>

datatype status = Continue | Return int | Uncaught exn


text \<open>\<open>if not r: print(msg); return 1\<close>\<close>

definition check :: "bool \<times> world \<Rightarrow> string \<Rightarrow> status \<times> world" where
  "check r msg = (case r of (ok, w) \<Rightarrow> if \<not> ok then (Return 1, print msg w) else (Continue, w))"

subsection \<open>Paths and constants of \<open>main\<close>\<close>

definition contract_number :: string where
  "contract_number = ''381034''"

definition cds_folder :: "env \<Rightarrow> path" where
  "cds_folder e = base_dir e @ [''cds data population'']"

definition cds_script :: "env \<Rightarrow> path" where
  "cds_script e = cds_folder e @ [''cds_mapping.py'']"

definition cds_venv_python :: "env \<Rightarrow> path" where
  "cds_venv_python e = cds_folder e @ [''.venv'', ''bin'', ''python3'']"

definition cds_output_file :: "env \<Rightarrow> path" where
  "cds_output_file e = cds_folder e @ [''output'', ''output.json'']"

definition cds_renamed_file :: "env \<Rightarrow> path" where
  "cds_renamed_file e = cds_folder e @ [''output'', ''input.json'']"

definition rest_folder :: "env \<Rightarrow> path" where
  "rest_folder e = base_dir e @ [''rest of the data population'']"

definition rest_input_file :: "env \<Rightarrow> path" where
  "rest_input_file e = rest_folder e @ [''input'', ''input.json'']"

definition merge_script :: "env \<Rightarrow> path" where
  "merge_script e = rest_folder e @ [''merge_letterdata.py'']"

definition rest_output_file :: "env \<Rightarrow> path" where
  "rest_output_file e = rest_folder e @ [''output'', ''output.json'']"

definition rest_renamed_file :: "env \<Rightarrow> path" where
  "rest_renamed_file e = rest_folder e @ [''output'', ''input.json'']"

definition script_resolution_folder :: "env \<Rightarrow> path" where
  "script_resolution_folder e = base_dir e @ [''scriptResolution'']"

definition script_resolution_input_file :: "env \<Rightarrow> path" where
  "script_resolution_input_file e =
     script_resolution_folder e @ [''src'', ''main'', ''resources'', ''input'', ''input.json'']"

definition mvnw :: "env \<Rightarrow> path" where
  "mvnw e = base_dir e @ [''pdfgen'', ''mvnw'']"

definition script_resolution_output_file :: "env \<Rightarrow> path" where
  "script_resolution_output_file e =
     script_resolution_folder e @ [''src'', ''main'', ''resources'', ''output'', ''output.json'']"

definition script_resolution_renamed_file :: "env \<Rightarrow> path" where
  "script_resolution_renamed_file e =
     script_resolution_folder e @ [''src'', ''main'', ''resources'', ''output'', ''input.json'']"

definition pdfgen_test_folder :: "env \<Rightarrow> path" where
  "pdfgen_test_folder e = base_dir e @ [''pdfgen'', ''src'', ''main'', ''resources'', ''testInput'']"

definition pdfgen_input_file :: "env \<Rightarrow> path" where
  "pdfgen_input_file e = pdfgen_test_folder e @ [''input.json'']"

definition docx_file :: "env \<Rightarrow> path" where
  "docx_file e = pdfgen_test_folder e @ [''dest-with-header-footer.docx'']"

definition storage_api_url :: string where
  "storage_api_url = ''https://platform.dev-capability.zinnia.com/pdfgeneration-service/storage/docxs''"

definition render_api_url :: string where
  "render_api_url = ''https://platform.dev-capability.zinnia.com/pdfgeneration-service/docx/render-to-pdf?templateName=dest-with-header-footer.docx''"

definition test_output_folder :: "env \<Rightarrow> path" where
  "test_output_folder e = base_dir e @ [''pdfgen'', ''src'', ''main'', ''resources'', ''testOutput'']"

definition output_pdf_file :: "env \<Rightarrow> path" where
  "output_pdf_file e = test_output_folder e @ [''output.pdf'']"

definition stamp_api_url :: string where
  "stamp_api_url = ''https://platform.dev-capability.zinnia.com/pdfgeneration-service/pdf/stamp-image''"

definition barcode_image :: "env \<Rightarrow> path" where
  "barcode_image e = pdfgen_test_folder e @ [''sample_barcode.jpg'']"

definition temp_output :: "env \<Rightarrow> path" where
  "temp_output e = test_output_folder e @ [''output_temp.pdf'']"

definition banner :: "string \<Rightarrow> string list" where
  \<comment> \<open>the three \<open>print\<close> calls that open every numbered block\<close>
  "banner title = [nl @ nl @ hashes70, title, hashes70]"

definition upload_cmd :: "env \<Rightarrow> string list" where
  "upload_cmd e = [''curl'', ''-X'', ''POST'', ''-F'', ''file=@'' @ str_path (docx_file e), storage_api_url]"

definition render_cmd :: "env \<Rightarrow> string \<Rightarrow> string list" where
  "render_cmd e json_content =
     [''curl'', ''-X'', ''POST'', ''-F'', ''json='' @ json_content, render_api_url,
      ''-o'', str_path (output_pdf_file e)]"

definition stamp_cmd :: "env \<Rightarrow> int \<Rightarrow> string list" where
  "stamp_cmd e page =
     [''curl'', ''-X'', ''POST'',
      ''-F'', ''pdf=@'' @ str_path (output_pdf_file e),
      ''-F'', ''image=@'' @ str_path (barcode_image e),
      stamp_api_url @ ''?x=204&y=220.8&width=6.4&height=45.2&units=mm&anchor=top-left&page=''
        @ str_int page,
      ''-o'', str_path (temp_output e)]"

subsection \<open>The numbered blocks\<close>

definition step1 :: "env \<Rightarrow> world \<Rightarrow> status \<times> world" where
  "step1 e w =
     check (run_command e [str_path (cds_venv_python e), str_path (cds_script e)]
              (Some (str_path (cds_folder e))) (Some (contract_number @ nl))
              (prints (banner ''# STEP 1: Running cds_mapping.py'') w))
       ''ERROR: Step 1 failed - cds_mapping.py''"

definition step2 :: "env \<Rightarrow> world \<Rightarrow> status \<times> world" where
  "step2 e w =
     check (rename_file e (cds_output_file e) (cds_renamed_file e)
              (prints (banner ''# STEP 2: Renaming output.json to input.json in cds data population/output'') w))
       ''ERROR: Step 2 failed - renaming output.json''"

definition step3 :: "env \<Rightarrow> world \<Rightarrow> status \<times> world" where
  "step3 e w =
     check (copy_file e (cds_renamed_file e) (rest_input_file e)
              (prints (banner ''# STEP 3: Transferring input.json to rest of the data population/input'') w))
       ''ERROR: Step 3 failed - transferring input.json''"

definition step4 :: "env \<Rightarrow> world \<Rightarrow> status \<times> world" where
  "step4 e w =
     check (run_command e [''python3'', str_path (merge_script e)]
              (Some (str_path (rest_folder e))) None
              (prints (banner ''# STEP 4: Running merge_letterdata.py'') w))
       ''ERROR: Step 4 failed - merge_letterdata.py''"

definition step5 :: "env \<Rightarrow> world \<Rightarrow> status \<times> world" where
  "step5 e w =
     check (rename_file e (rest_output_file e) (rest_renamed_file e)
              (prints (banner ''# STEP 5: Renaming output.json to input.json in rest of the data population/output'') w))
       ''ERROR: Step 5 failed - renaming output.json''"

definition step6 :: "env \<Rightarrow> world \<Rightarrow> status \<times> world" where
  "step6 e w =
     check (copy_file e (rest_renamed_file e) (script_resolution_input_file e)
              (prints (banner ''# STEP 6: Transferring input.json to scriptResolution/src/main/resources/input'') w))
       ''ERROR: Step 6 failed - transferring input.json''"

definition step7 :: "env \<Rightarrow> world \<Rightarrow> status \<times> world" where
  "step7 e w =
     (case check (run_command e
                    [str_path (mvnw e), ''compile'', ''-q'', ''-f'',
                     str_path (script_resolution_folder e @ [''pom.xml''])]
                    (Some (str_path (script_resolution_folder e))) None
                    (prints (banner ''# STEP 7: Running ExprEval.java (using Maven wrapper)'') w))
             ''ERROR: Step 7 failed - Maven compile'' of
        (Continue, w1) \<Rightarrow>
          check (run_command e
                   [str_path (mvnw e), ''exec:java'', ''-q'', ''-f'',
                    str_path (script_resolution_folder e @ [''pom.xml''])]
                   (Some (str_path (script_resolution_folder e))) None w1)
            ''ERROR: Step 7 failed - running ExprEval''
      | (st, w1) \<Rightarrow> (st, w1))"

definition step8 :: "env \<Rightarrow> world \<Rightarrow> status \<times> world" where
  "step8 e w =
     check (rename_file e (script_resolution_output_file e) (script_resolution_renamed_file e)
              (prints (banner ''# STEP 8: Renaming output.json to input.json in scriptResolution resources/output'') w))
       ''ERROR: Step 8 failed - renaming output.json''"

definition step9 :: "env \<Rightarrow> world \<Rightarrow> status \<times> world" where
  "step9 e w =
     check (copy_file e (script_resolution_renamed_file e) (pdfgen_input_file e)
              (prints (banner ''# STEP 9: Transferring input.json to pdfgen/src/main/resources/test'') w))
       ''ERROR: Step 9 failed - transferring input.json''"

definition step10 :: "env \<Rightarrow> world \<Rightarrow> status \<times> world" where
  "step10 e w =
     check (run_command e (upload_cmd e) None None
              (prints (banner ''# STEP 10: Uploading dest-with-header-footer.docx to Storage API'') w))
       ''ERROR: Step 10 failed - Storage API upload''"

text \<open>
  Block 11 creates the output folder and reads \<open>input.json\<close> outside any \<open>try\<close>: an
  exception there escapes from \<open>main\<close>.
\<close>

definition step11 :: "env \<Rightarrow> world \<Rightarrow> status \<times> world" where
  "step11 e w =
     (case mkdir e (test_output_folder e)
             (prints (banner ''# STEP 11: Calling Docx-to-PDF API and saving PDF output'') w) of
        (Inl x, w1) \<Rightarrow> (Uncaught x, w1)
      | (Inr u, w1) \<Rightarrow>
     (case read_text e (pdfgen_input_file e) w1 of
        (Inl x, w2) \<Rightarrow> (Uncaught x, w2)
      | (Inr json_content, w2) \<Rightarrow>
     (case subprocess_run e (render_cmd e json_content) None None
             (prints [nl @ rule60, ''Calling: '' @ render_api_url,
                      ''Saving response to: '' @ str_path (output_pdf_file e), rule60] w2) of
        (Inl x, w3) \<Rightarrow> (Return 1, print (''ERROR: Failed to call Docx-to-PDF API: '' @ x) w3)
      | (Inr result, w3) \<Rightarrow>
          (let w4 = print (stdout result) w3;
               w5 = (if stderr result \<noteq> [] then print (''STDERR: '' @ stderr result) w4 else w4)
           in if returncode result \<noteq> 0
              then (Return 1, print (''ERROR: Docx-to-PDF API failed with return code ''
                                      @ str_int (returncode result)) w5)
              else (Continue, print (nl @ ''PDF saved to: '' @ str_path (output_pdf_file e)) w5)))))"

text \<open>The body of the loop \<open>for page in range(1, page_count + 1)\<close>.\<close>

definition stamp_page :: "env \<Rightarrow> int \<Rightarrow> int \<Rightarrow> world \<Rightarrow> status \<times> world" where
  "stamp_page e page_count page w =
     (case subprocess_run e (stamp_cmd e page) None None
             (prints [nl @ rule60,
                      ''Stamping page '' @ str_int page @ '' of '' @ str_int page_count,
                      rule60] w) of
        (Inl x, w1) \<Rightarrow>
          (Return 1, print (''ERROR: Failed to stamp page '' @ str_int page @ '': '' @ x) w1)
      | (Inr result, w1) \<Rightarrow>
          (let w2 = (if stderr result \<noteq> [] then print (''STDERR: '' @ stderr result) w1 else w1)
           in if returncode result \<noteq> 0
              then (Return 1, print (''ERROR: Stamp API failed for page '' @ str_int page
                                      @ '' with return code '' @ str_int (returncode result)) w2)
              else (case move e (temp_output e) (output_pdf_file e) w2 of
                      (Inl x, w3) \<Rightarrow>
                        (Return 1, print (''ERROR: Failed to stamp page '' @ str_int page
                                           @ '': '' @ x) w3)
                    | (Inr u, w3) \<Rightarrow>
                        (Continue, print (''Page '' @ str_int page @ '' stamped successfully'') w3))))"

fun stamp_loop :: "env \<Rightarrow> int \<Rightarrow> int list \<Rightarrow> world \<Rightarrow> status \<times> world" where
  "stamp_loop e page_count [] w = (Continue, w)"
| "stamp_loop e page_count (page # pages) w =
     (case stamp_page e page_count page w of
        (Continue, w1) \<Rightarrow> stamp_loop e page_count pages w1
      | (st, w1) \<Rightarrow> (st, w1))"

definition step12 :: "env \<Rightarrow> world \<Rightarrow> status \<times> world" where
  "step12 e w =
     (case get_pdf_page_count e (output_pdf_file e)
             (prints (banner ''# STEP 12: Stamping barcode image on each page of the PDF'') w) of
        (Inl x, w1) \<Rightarrow> (Uncaught x, w1)
      | (Inr None, w1) \<Rightarrow> (Return 1, print ''ERROR: Could not determine PDF page count'' w1)
      | (Inr (Some page_count), w1) \<Rightarrow>
          if page_count \<le> 0
          then (Return 1, print ''ERROR: Could not determine PDF page count'' w1)
          else (case stamp_loop e page_count [1..page_count]
                       (print (''PDF has '' @ str_int page_count @ '' page(s)'') w1) of
                  (Continue, w2) \<Rightarrow>
                    (Continue, print (nl @ ''All '' @ str_int page_count
                                       @ '' pages stamped successfully!'') w2)
                | (st, w2) \<Rightarrow> (st, w2)))"

subsection \<open>\<open>main\<close>\<close>

fun run_steps :: "(world \<Rightarrow> status \<times> world) list \<Rightarrow> world \<Rightarrow> status \<times> world" where
  "run_steps [] w = (Continue, w)"
| "run_steps (s # ss) w =
     (case s w of
        (Continue, w1) \<Rightarrow> run_steps ss w1
      | (st, w1) \<Rightarrow> (st, w1))"

definition pipeline :: "env \<Rightarrow> (world \<Rightarrow> status \<times> world) list" where
  "pipeline e =
     [step1 e, step2 e, step3 e, step4 e, step5 e, step6 e,
      step7 e, step8 e, step9 e, step10 e, step11 e, step12 e]"

definition opening_lines :: "string list" where
  "opening_lines =
     [nl @ rule70, ''PIPELINE AUTOMATION SCRIPT'', ''Contract Number: '' @ contract_number, rule70]"

definition closing_lines :: "env \<Rightarrow> string list" where
  "closing_lines e =
     [nl @ nl @ rule70, ''PIPELINE COMPLETED SUCCESSFULLY!'', rule70,
      nl @ ''Final JSON location: '' @ str_path (pdfgen_input_file e),
      ''Final PDF location: '' @ str_path (output_pdf_file e)]"

definition main :: "env \<Rightarrow> world \<Rightarrow> status \<times> world" where
  "main e w =
     (case run_steps (pipeline e) (prints opening_lines w) of
        (Continue, w1) \<Rightarrow> (Return 0, prints (closing_lines e) w1)
      | (st, w1) \<Rightarrow> (st, w1))"


definition is_error_line :: "string \<Rightarrow> bool" where
  "is_error_line s = (take 6 s = ''ERROR:'')"



text \<open>The commands a world has spawned, in order.\<close>

definition spawned :: "world \<Rightarrow> string list list" where
  "spawned w = List.map_filter (\<lambda>ev. case ev of Spawn cmd \<Rightarrow> Some cmd | _ \<Rightarrow> None) (events w)"

subsection \<open>The exit status of \<open>curl\<close>\<close>

text \<open>
  The three HTTP blocks run \<open>curl\<close>. What the script sees of the HTTP exchange is
  \<open>curl\<close>'s exit status, which follows \<open>curl\<close>'s manual: a transfer that could not be
  completed gives a non-zero status; a completed transfer gives 0 whatever the HTTP
  status of the response, unless \<open>-f\<close>/\<open>--fail\<close> is among the arguments, in which case
  an HTTP status of 400 or more gives 22.
\<close>

datatype transfer = NoResponse int | Response nat bytes

definition curl_returncode :: "string list \<Rightarrow> transfer \<Rightarrow> int" where
  "curl_returncode cmd tr =
     (case tr of
        NoResponse code \<Rightarrow> code
      | Response http_status body \<Rightarrow>
          if (''-f'' \<in> set cmd \<or> ''--fail'' \<in> set cmd) \<and> 400 \<le> http_status then 22 else 0)"

subsection \<open>Concrete runs\<close>

text \<open>
  \<open>stale_world\<close>: the first stage has left no \<open>output.json\<close>, and an \<open>input.json\<close>
  of an earlier run is still in place. \<open>stamping_env\<close>: every command succeeds and leaves
  the working PDF with a barcode appended in \<open>output_temp.pdf\<close>; \<open>rendered_world\<close>
  holds the rendered PDF. \<open>http_env s\<close>: every command is a \<open>curl\<close> whose server
  answers with HTTP status \<open>s\<close>; \<open>staged_world\<close> holds the \<open>input.json\<close> that
  block 11 reads.
\<close>

definition stale_world :: world where
  "stale_world =
     \<lparr>files = [cds_renamed_file bare_env \<mapsto> ''previous stage file''], console = [], events = []\<rparr>"

definition stamping_env :: env where
  "stamping_env =
     \<lparr>base_dir = [''repo''],
      spawn = (\<lambda>t cmd cwd inp fs.
        (Inr (CompletedProcess 0 [] []),
         fs(temp_output bare_env \<mapsto>
              (case fs (output_pdf_file bare_env) of None \<Rightarrow> [] | Some pdf \<Rightarrow> pdf) @ ''+barcode''))),
      fault = (\<lambda>t. None),
      int_max_str_digits = 4300\<rparr>"


definition http_env :: "nat \<Rightarrow> env" where
  "http_env http_status =
     \<lparr>base_dir = [''repo''],
      spawn = (\<lambda>t cmd cwd inp fs.
        (Inr (CompletedProcess (curl_returncode cmd (Response http_status ''error page''))
                ''error page'' []), fs)),
      fault = (\<lambda>t. None),
      int_max_str_digits = 4300\<rparr>"

definition empty_world :: world where
  "empty_world = \<lparr>files = Map.empty, console = [], events = []\<rparr>"

definition staged_world :: world where
  "staged_world =
     \<lparr>files = [pdfgen_input_file (http_env 404) \<mapsto> ''{}''], console = [], events = []\<rparr>"

text \<open>
  \<open>merge_fails_env\<close>: \<open>cds_mapping.py\<close> succeeds and writes its \<open>output.json\<close>;
  \<open>merge_letterdata.py\<close> exits with code 2.
\<close>

definition merge_fails_env :: env where
  "merge_fails_env =
     \<lparr>base_dir = [''repo''],
      spawn = (\<lambda>t cmd cwd inp fs.
        if cmd = [''python3'', str_path (merge_script bare_env)]
        then (Inr (CompletedProcess 2 [] ''merge failed''), fs)
        else (Inr (CompletedProcess 0 [] []), fs(cds_output_file bare_env \<mapsto> ''{}''))),
      fault = (\<lambda>t. None),
      int_max_str_digits = 4300\<rparr>"

text \<open>
  \<open>happy_env\<close>: neither \<open>mdls\<close> nor \<open>pdfinfo\<close> is installed; every other command
  exits with 0; the three stage programs write their \<open>output.json\<close>, the rendering call
  writes a PDF with one page object, a stamp call writes the working PDF with a barcode
  appended to \<open>output_temp.pdf\<close>.
\<close>

definition happy_env :: env where
  "happy_env =
     \<lparr>base_dir = [''repo''],
      spawn = (\<lambda>t cmd cwd inp fs.
        if hd cmd = ''mdls'' \<or> hd cmd = ''pdfinfo'' then (Inl ''FileNotFoundError'', fs)
        else if last cmd = str_path (cds_script bare_env)
          then (Inr (CompletedProcess 0 [] []), fs(cds_output_file bare_env \<mapsto> ''{}''))
        else if last cmd = str_path (merge_script bare_env)
          then (Inr (CompletedProcess 0 [] []), fs(rest_output_file bare_env \<mapsto> ''{}''))
        else if cmd ! 1 = ''exec:java''
          then (Inr (CompletedProcess 0 [] []), fs(script_resolution_output_file bare_env \<mapsto> ''{}''))
        else if last cmd = str_path (output_pdf_file bare_env)
          then (Inr (CompletedProcess 0 [] []), fs(output_pdf_file bare_env \<mapsto> ''/Type /Page''))
        else if last cmd = str_path (temp_output bare_env)
          then (Inr (CompletedProcess 0 [] []),
                fs(temp_output bare_env \<mapsto>
                   (case fs (output_pdf_file bare_env) of None \<Rightarrow> [] | Some pdf \<Rightarrow> pdf) @ ''+barcode''))
        else (Inr (CompletedProcess 0 [] []), fs)),
      fault = (\<lambda>t. None),
      int_max_str_digits = 4300\<rparr>"

section \<open>Basic facts about worlds and operations\<close>

lemma files_prints [simp]: "files (prints ss w) = files w"
  by (simp add: prints_def)

lemma files_print [simp]: "files (print s w) = files w"
  by (simp add: print_def)

lemma events_prints [simp]: "events (prints ss w) = events w"
  by (simp add: prints_def)

lemma events_print [simp]: "events (print s w) = events w"
  by (simp add: print_def)

lemma now_prints [simp]: "now (prints ss w) = now w"
  by (simp add: now_def)

lemma now_print [simp]: "now (print s w) = now w"
  by (simp add: now_def)

lemma files_log [simp]: "files (log ev w) = files w"
  by (simp add: log_def)

lemma now_log [simp]: "now (log ev w) = Suc (now w)"
  by (simp add: log_def now_def)

lemma now_set_files [simp]: "now (w\<lparr>files := fs\<rparr>) = now w"
  by (simp add: now_def)

lemma fst_check: "fst (check r msg) = (if fst r then Continue else Return 1)"
  by (simp add: check_def case_prod_beta)


lemma subprocess_run_eq:
  "subprocess_run e cmd cwd inp w =
     (fst (spawn e (now w) cmd cwd inp (files w)),
      (log (Spawn cmd) w)\<lparr>files := snd (spawn e (now w) cmd cwd inp (files w))\<rparr>)"
  by (simp add: subprocess_run_def case_prod_beta)

lemma fst_subprocess_run:
  "fst (subprocess_run e cmd cwd inp w) = fst (spawn e (now w) cmd cwd inp (files w))"
  by (simp add: subprocess_run_eq)

section \<open>Properties of the page-count resolver\<close>

subsection \<open>Auxiliary facts\<close>

lemma py_int_nonneg: "py_int l s = Inr v \<Longrightarrow> 0 \<le> v"
  by (auto simp: py_int_def split: if_splits)

lemma mdls_block_nonneg: "fst (mdls_block e p w) = Inr (Some v) \<Longrightarrow> 0 \<le> v"
  by (auto simp: mdls_block_def split: prod.splits sum.splits if_splits option.splits dest: py_int_nonneg)

lemma pdfinfo_block_nonneg: "fst (pdfinfo_block e p w) = Inr (Some v) \<Longrightarrow> 0 \<le> v"
  by (auto simp: pdfinfo_block_def split: prod.splits sum.splits if_splits option.splits dest: py_int_nonneg)

lemma marker_block_nonneg: "fst (marker_block e p w) = Inr (Some v) \<Longrightarrow> 0 \<le> v"
  by (auto simp: marker_block_def Let_def split: prod.splits sum.splits if_splits option.splits)

lemma slash_count_block_nonneg: "fst (slash_count_block e p w) = Inr (Some v) \<Longrightarrow> 0 \<le> v"
  by (auto simp: slash_count_block_def split: prod.splits sum.splits if_splits option.splits dest: py_int_nonneg)

lemma except_pass_Some: "fst (except_pass r) = Some v \<longleftrightarrow> fst r = Inr (Some v)"
  by (cases r; cases "fst r") (auto simp: except_pass_def split: sum.splits)

lemma except_pass_None: "fst (except_pass r) = None \<longleftrightarrow> (\<forall>v. fst r \<noteq> Inr (Some v))"
  by (cases r; cases "fst r") (auto simp: except_pass_def split: sum.splits)

lemma snd_except_pass: "snd (except_pass r) = snd r"
  by (cases r; cases "fst r") (auto simp: except_pass_def split: sum.splits)

text \<open>The resolver, with the worlds written as projections of the blocks' results.\<close>

lemma get_pdf_page_count_chain:
  "get_pdf_page_count e p w =
    (let r1 = mdls_block e p w in
     case fst (except_pass r1) of Some v \<Rightarrow> (Inr (Some v), snd r1) | None \<Rightarrow>
    (let r2 = pdfinfo_block e p (snd r1) in
     case fst (except_pass r2) of Some v \<Rightarrow> (Inr (Some v), snd r2) | None \<Rightarrow>
    (let r3 = marker_block e p (snd r2) in
     case fst (except_pass r3) of Some v \<Rightarrow> (Inr (Some v), snd r3) | None \<Rightarrow>
    (let r4 = slash_count_block e p (snd r3) in
     case fst (except_pass r4) of Some v \<Rightarrow> (Inr (Some v), snd r4) | None \<Rightarrow> (Inr None, snd r4)))))"
  by (simp add: get_pdf_page_count_def Let_def case_prod_beta snd_except_pass cong: option.case_cong)


lemma events_mdls_block:
  "events (snd (mdls_block e p w)) =
     events w @ [Spawn [''mdls'', ''-name'', ''kMDItemNumberOfPages'', str_path p]]"
  by (simp add: mdls_block_def subprocess_run_def log_def split: prod.splits sum.splits option.splits)

lemma events_pdfinfo_block:
  "events (snd (pdfinfo_block e p w)) = events w @ [Spawn [''pdfinfo'', str_path p]]"
  by (simp add: pdfinfo_block_def subprocess_run_def log_def split: prod.splits sum.splits option.splits)

lemma events_read_bytes: "events (snd (read_bytes e p w)) = events w @ [Open p]"
  by (simp add: read_bytes_def log_def split: option.splits)

lemma snd_marker_block: "snd (marker_block e p w) = snd (read_bytes e p w)"
  by (simp add: marker_block_def Let_def split: prod.splits sum.splits)

lemma snd_slash_count_block: "snd (slash_count_block e p w) = snd (read_bytes e p w)"
  by (simp add: slash_count_block_def split: prod.splits sum.splits option.splits)

lemma fst_marker_block:
  "fst (marker_block e p w) =
     (case fst (read_bytes e p w) of
        Inl x \<Rightarrow> Inl x
      | Inr content \<Rightarrow>
          Inr (Some (if int (py_count content ''/Type /Page'') > int (py_count content ''/Type /Pages'')
                     then int (py_count content ''/Type /Page'') - int (py_count content ''/Type /Pages'')
                     else int (py_count content ''/Type /Page''))))"
  by (simp add: marker_block_def Let_def split: prod.splits sum.splits)


text \<open>\<open>bytes.count\<close> of a border-free marker is its number of occurrences.\<close>


lemma occurrences_short: "length s < length sub \<Longrightarrow> occurrences s sub = 0"
proof (induction s)
  case Nil
  then show ?case by auto
next
  case (Cons c cs)
  have "length (take (length sub) (c # cs)) < length sub"
    using Cons.prems by simp
  then have "take (length sub) (c # cs) \<noteq> sub" by auto
  with Cons show ?case by simp
qed

lemma occurrences_skip:
  "sub \<noteq> [] \<Longrightarrow> \<forall>i<k. take (length sub) (drop i s) \<noteq> sub \<Longrightarrow>
     occurrences s sub = occurrences (drop k s) sub"
proof (induction k arbitrary: s)
  case 0
  then show ?case by simp
next
  case (Suc k)
  show ?case
  proof (cases s)
    case Nil
    then show ?thesis by simp
  next
    case (Cons c cs)
    have "take (length sub) (drop 0 s) \<noteq> sub" using Suc.prems(2) by blast
    then have a: "occurrences s sub = occurrences cs sub" using Cons by simp
    have "\<forall>i<k. take (length sub) (drop i cs) \<noteq> sub"
    proof (intro allI impI)
      fix i assume "i < k"
      then have "take (length sub) (drop (Suc i) s) \<noteq> sub" using Suc.prems(2) by auto
      then show "take (length sub) (drop i cs) \<noteq> sub" using Cons by simp
    qed
    then have "occurrences cs sub = occurrences (drop k cs) sub"
      using Suc.IH Suc.prems(1) by blast
    with a Cons show ?thesis by simp
  qed
qed

lemma overlap_border:
  assumes "take (length sub) s = sub" and "0 < d" and "d < length sub"
      and "take (length sub) (drop d s) = sub"
  shows "take (length sub - d) sub = drop d sub"
proof -
  have "drop d sub = drop d (take (length sub) s)" using assms(1) by simp
  also have "\<dots> = take (length sub - d) (drop d s)" by (simp add: drop_take)
  also have "\<dots> = take (length sub - d) (take (length sub) (drop d s))" by simp
  also have "\<dots> = take (length sub - d) sub" using assms(4) by simp
  finally show ?thesis by simp
qed

lemma py_count_occurrences:
  "border_free sub \<Longrightarrow> sub \<noteq> [] \<Longrightarrow> py_count s sub = occurrences s sub"
proof (induction s sub rule: py_count.induct)
  case (1 s sub)
  let ?n = "length sub"
  show ?case
  proof (cases "length s < ?n")
    case True
    then show ?thesis using "1.prems" by (simp add: py_count.simps [of s sub] occurrences_short)
  next
    case long: False
    then obtain c cs where s: "s = c # cs" using "1.prems"(2) by (cases s) auto
    show ?thesis
    proof (cases "take ?n s = sub")
      case True
      have ih: "py_count (drop ?n s) sub = occurrences (drop ?n s) sub"
        using "1.IH"(1) "1.prems" long True by simp
      have nb: "\<forall>i<?n - 1. take ?n (drop i cs) \<noteq> sub"
      proof (intro allI impI notI)
        fix i assume i: "i < ?n - 1" and occ: "take ?n (drop i cs) = sub"
        have "take ?n (drop (Suc i) s) = sub" using occ s by simp
        then have "take (?n - Suc i) sub = drop (Suc i) sub"
          using overlap_border [OF True, of "Suc i"] i by simp
        moreover have "Suc i \<in> set [1..<?n]" using i by auto
        ultimately show False using "1.prems"(1)
          unfolding border_free_def list_all_iff by blast
      qed
      have "occurrences cs sub = occurrences (drop (?n - 1) cs) sub"
        using occurrences_skip [OF "1.prems"(2) nb] .
      moreover have "drop (?n - 1) cs = drop ?n s"
        using s "1.prems"(2) by (cases sub) auto
      ultimately have "occurrences s sub = 1 + occurrences (drop ?n s) sub"
        using s True by simp
      moreover have "py_count s sub = 1 + py_count (drop ?n s) sub"
        using long True "1.prems"(2) by (subst py_count.simps) simp
      ultimately show ?thesis using ih by simp
    next
      case False
      have ih: "py_count (tl s) sub = occurrences (tl s) sub"
        using "1.IH"(2) "1.prems" long False by simp
      moreover have "py_count s sub = py_count (tl s) sub"
        using long False "1.prems"(2) by (subst py_count.simps) simp
      moreover have "occurrences s sub = occurrences (tl s) sub"
        using s False by simp
      ultimately show ?thesis by simp
    qed
  qed
qed

lemma border_free_page: "border_free ''/Type /Page''"
  by (simp add: border_free_def upt_rec)

lemma border_free_pages: "border_free ''/Type /Pages''"
  by (simp add: border_free_def upt_rec)

lemma count_page: "py_count s ''/Type /Page'' = occurrences s ''/Type /Page''"
  by (rule py_count_occurrences [OF border_free_page]) simp

lemma count_pages: "py_count s ''/Type /Pages'' = occurrences s ''/Type /Pages''"
  by (rule py_count_occurrences [OF border_free_pages]) simp

lemma bare_env_simps [simp]:
  "spawn bare_env t cmd cwd inp fs = (Inl ''FileNotFoundError'', fs)"
  "fault bare_env t = None" "int_max_str_digits bare_env = 4300" "base_dir bare_env = [''repo'']"
  by (simp_all add: bare_env_def)

lemma bare_blocks:
  "mdls_block bare_env p w = (Inl ''FileNotFoundError'', (log (Spawn [''mdls'', ''-name'', ''kMDItemNumberOfPages'', str_path p]) w))"
  "pdfinfo_block bare_env p w = (Inl ''FileNotFoundError'', (log (Spawn [''pdfinfo'', str_path p]) w))"
  by (simp_all add: mdls_block_def pdfinfo_block_def subprocess_run_def log_def)

lemma bare_read:
  "read_bytes bare_env p w = (case files w p of None \<Rightarrow> (Inl ''FileNotFoundError'', log (Open p) w) | Some c \<Rightarrow> (Inr c, log (Open p) w))"
  by (simp add: read_bytes_def)

lemma files_pdf_world [simp]: "files (pdf_world c) = [[''output.pdf''] \<mapsto> c]"
  by (simp add: pdf_world_def)


lemma tools_env_simps [simp]:
  "spawn tools_env t cmd cwd inp fs =
     (if cmd = [''mdls'', ''-name'', ''kMDItemNumberOfPages'', ''/output.pdf'']
        then (Inr (CompletedProcess 0 (''kMDItemNumberOfPages = 5'' @ [CHR 0x0A]) []), fs)
        else if cmd = [''pdfinfo'', ''/output.pdf'']
        then (Inr (CompletedProcess 0 (''Pages:          7'' @ [CHR 0x0A]) []), fs)
        else (Inl ''FileNotFoundError'', fs))"
  "fault tools_env t = None" "int_max_str_digits tools_env = 4300"
  by (simp_all add: tools_env_def)


lemma bare_env_resolver:
  assumes "files w p = Some content"
  shows "fst (get_pdf_page_count bare_env p w) =
     Inr (Some (if int (occurrences content ''/Type /Page'') > int (occurrences content ''/Type /Pages'')
            then int (occurrences content ''/Type /Page'') - int (occurrences content ''/Type /Pages'')
            else int (occurrences content ''/Type /Page'')))"
proof -
  have n1: "fst (except_pass (mdls_block bare_env p w)) = None"
    by (simp add: except_pass_None bare_blocks)
  have n2: "fst (except_pass (pdfinfo_block bare_env p (snd (mdls_block bare_env p w)))) = None"
    by (simp add: except_pass_None bare_blocks)
  have s3: "fst (except_pass (marker_block bare_env p (snd (pdfinfo_block bare_env p (snd (mdls_block bare_env p w)))))) =
     Some (if int (occurrences content ''/Type /Page'') > int (occurrences content ''/Type /Pages'')
            then int (occurrences content ''/Type /Page'') - int (occurrences content ''/Type /Pages'')
            else int (occurrences content ''/Type /Page''))"
    using assms by (simp add: except_pass_Some fst_marker_block bare_blocks bare_read count_page count_pages)
  show ?thesis
    by (simp add: get_pdf_page_count_chain Let_def n1 n2 s3)
qed




subsection \<open>The claims about the resolver\<close>




text \<open>
  Claim C3: when \<open>mdls\<close> and \<open>pdfinfo\<close> yield no value and the bytes of the file are
  read, the resolver returns the number of occurrences of \<open>/Type /Page\<close> minus the
  number of occurrences of \<open>/Type /Pages\<close> when that difference is positive, and the
  number of occurrences of \<open>/Type /Page\<close> otherwise.
\<close>

theorem marker_heuristic_result:
  assumes "\<forall>v. fst (mdls_block e p w) \<noteq> Inr (Some v)"
      and "\<forall>v. fst (pdfinfo_block e p (snd (mdls_block e p w))) \<noteq> Inr (Some v)"
      and "fst (read_bytes e p (snd (pdfinfo_block e p (snd (mdls_block e p w))))) = Inr content"
  shows "fst (get_pdf_page_count e p w) =
           Inr (Some (if 0 < int (occurrences content ''/Type /Page'') - int (occurrences content ''/Type /Pages'')
                      then int (occurrences content ''/Type /Page'') - int (occurrences content ''/Type /Pages'')
                      else int (occurrences content ''/Type /Page'')))"
proof -
  let ?w2 = "snd (pdfinfo_block e p (snd (mdls_block e p w)))"
  have n1: "fst (except_pass (mdls_block e p w)) = None"
    using assms(1) by (simp add: except_pass_None)
  have n2: "fst (except_pass (pdfinfo_block e p (snd (mdls_block e p w)))) = None"
    using assms(2) by (simp add: except_pass_None)
  have s3: "fst (except_pass (marker_block e p ?w2)) =
      Some (if int (occurrences content ''/Type /Page'') > int (occurrences content ''/Type /Pages'')
            then int (occurrences content ''/Type /Page'') - int (occurrences content ''/Type /Pages'')
            else int (occurrences content ''/Type /Page''))"
    using assms(3) by (simp add: except_pass_Some fst_marker_block count_page count_pages)
  show ?thesis
    by (simp add: get_pdf_page_count_chain Let_def n1 n2 s3)
qed

text \<open>Witness for C3: one pages collection and one page object, without the two tools.\<close>

theorem marker_heuristic_result_witness:
  "(\<forall>v. fst (mdls_block bare_env [''output.pdf''] (pdf_world ''/Type /Pages /Type /Page'')) \<noteq> Inr (Some v)) \<and>
   (\<forall>v. fst (pdfinfo_block bare_env [''output.pdf'']
        (snd (mdls_block bare_env [''output.pdf''] (pdf_world ''/Type /Pages /Type /Page'')))) \<noteq> Inr (Some v)) \<and>
   fst (read_bytes bare_env [''output.pdf''] (snd (pdfinfo_block bare_env [''output.pdf'']
        (snd (mdls_block bare_env [''output.pdf''] (pdf_world ''/Type /Pages /Type /Page''))))))
      = Inr ''/Type /Pages /Type /Page'' \<and>
   fst (get_pdf_page_count bare_env [''output.pdf''] (pdf_world ''/Type /Pages /Type /Page'')) = Inr (Some 1)"
proof -
  let ?w = "pdf_world ''/Type /Pages /Type /Page''"
  let ?p = "[''output.pdf'']"
  have h1: "\<forall>v. fst (mdls_block bare_env ?p ?w) \<noteq> Inr (Some v)"
    by (simp add: bare_blocks)
  have h2: "\<forall>v. fst (pdfinfo_block bare_env ?p (snd (mdls_block bare_env ?p ?w))) \<noteq> Inr (Some v)"
    by (simp add: bare_blocks)
  have h3: "fst (read_bytes bare_env ?p (snd (pdfinfo_block bare_env ?p (snd (mdls_block bare_env ?p ?w)))))
      = Inr ''/Type /Pages /Type /Page''"
    by (simp add: bare_blocks bare_read)
  have "fst (get_pdf_page_count bare_env ?p ?w) = Inr (Some 1)"
    using marker_heuristic_result [OF h1 h2 h3] by simp
  with h1 h2 h3 show ?thesis by blast
qed



text \<open>
  Claim C5: the resolver never raises to its caller; an exception inside a strategy counts
  as that strategy yielding no value, and when no strategy yields a value the resolver
  returns \<open>None\<close>.
\<close>

theorem get_pdf_page_count_never_raises:
  "(\<forall>x. fst (get_pdf_page_count e p w) \<noteq> Inl x) \<and>
   (let r1 = mdls_block e p w; r2 = pdfinfo_block e p (snd r1);
        r3 = marker_block e p (snd r2); r4 = slash_count_block e p (snd r3)
    in (\<forall>v. fst r1 \<noteq> Inr (Some v)) \<and> (\<forall>v. fst r2 \<noteq> Inr (Some v)) \<and>
       (\<forall>v. fst r3 \<noteq> Inr (Some v)) \<and> (\<forall>v. fst r4 \<noteq> Inr (Some v))
       \<longrightarrow> get_pdf_page_count e p w = (Inr None, snd r4))"
proof
  show "\<forall>x. fst (get_pdf_page_count e p w) \<noteq> Inl x"
    by (simp add: get_pdf_page_count_def split: prod.splits option.splits)
next
  show "let r1 = mdls_block e p w; r2 = pdfinfo_block e p (snd r1);
        r3 = marker_block e p (snd r2); r4 = slash_count_block e p (snd r3)
    in (\<forall>v. fst r1 \<noteq> Inr (Some v)) \<and> (\<forall>v. fst r2 \<noteq> Inr (Some v)) \<and>
       (\<forall>v. fst r3 \<noteq> Inr (Some v)) \<and> (\<forall>v. fst r4 \<noteq> Inr (Some v))
       \<longrightarrow> get_pdf_page_count e p w = (Inr None, snd r4)"
    unfolding Let_def
  proof
    assume h: "(\<forall>v. fst (mdls_block e p w) \<noteq> Inr (Some v)) \<and>
      (\<forall>v. fst (pdfinfo_block e p (snd (mdls_block e p w))) \<noteq> Inr (Some v)) \<and>
      (\<forall>v. fst (marker_block e p (snd (pdfinfo_block e p (snd (mdls_block e p w))))) \<noteq> Inr (Some v)) \<and>
      (\<forall>v. fst (slash_count_block e p (snd (marker_block e p (snd (pdfinfo_block e p (snd (mdls_block e p w))))))) \<noteq> Inr (Some v))"
    then show "get_pdf_page_count e p w =
      (Inr None, snd (slash_count_block e p (snd (marker_block e p (snd (pdfinfo_block e p (snd (mdls_block e p w))))))))"
      by (simp add: get_pdf_page_count_chain Let_def except_pass_None [THEN iffD2])
  qed
qed

text \<open>Witness for C5: no tools and no file, so all four blocks raise.\<close>

theorem get_pdf_page_count_never_raises_witness:
  "((\<forall>v. fst (mdls_block bare_env [''missing.pdf''] (pdf_world ''x'')) \<noteq> Inr (Some v)) \<and>
    (\<forall>v. fst (pdfinfo_block bare_env [''missing.pdf'']
            (snd (mdls_block bare_env [''missing.pdf''] (pdf_world ''x'')))) \<noteq> Inr (Some v)) \<and>
    (\<forall>v. fst (marker_block bare_env [''missing.pdf'']
            (snd (pdfinfo_block bare_env [''missing.pdf'']
              (snd (mdls_block bare_env [''missing.pdf''] (pdf_world ''x'')))))) \<noteq> Inr (Some v)) \<and>
    (\<forall>v. fst (slash_count_block bare_env [''missing.pdf'']
            (snd (marker_block bare_env [''missing.pdf'']
              (snd (pdfinfo_block bare_env [''missing.pdf'']
                (snd (mdls_block bare_env [''missing.pdf''] (pdf_world ''x'')))))))) \<noteq> Inr (Some v))) \<and>
   fst (get_pdf_page_count bare_env [''missing.pdf''] (pdf_world ''x'')) = Inr None"
proof -
  let ?p = "[''missing.pdf'']"
  let ?w = "pdf_world ''x''"
  let ?r1 = "mdls_block bare_env ?p ?w"
  let ?r2 = "pdfinfo_block bare_env ?p (snd ?r1)"
  let ?r3 = "marker_block bare_env ?p (snd ?r2)"
  let ?r4 = "slash_count_block bare_env ?p (snd ?r3)"
  have h: "(\<forall>v. fst ?r1 \<noteq> Inr (Some v)) \<and> (\<forall>v. fst ?r2 \<noteq> Inr (Some v)) \<and>
           (\<forall>v. fst ?r3 \<noteq> Inr (Some v)) \<and> (\<forall>v. fst ?r4 \<noteq> Inr (Some v))"
    by (simp add: bare_blocks marker_block_def slash_count_block_def bare_read)
  have "get_pdf_page_count bare_env ?p ?w = (Inr None, snd ?r4)"
    using get_pdf_page_count_never_raises [of bare_env ?p ?w] h unfolding Let_def by blast
  then have "fst (get_pdf_page_count bare_env ?p ?w) = Inr None" by simp
  with h show ?thesis by blast
qed

text \<open>
  Claim C6, as stated: every non-absent value the resolver returns is strictly positive.
  It fails on a readable file without any page marker: the marker strategy returns
  \<open>count\<close>, which is 0. (The caller in \<open>main\<close> rejects \<open>page_count <= 0\<close>.)
\<close>

theorem resolver_zero_counterexample:
  "fst (get_pdf_page_count bare_env [''output.pdf''] (pdf_world ''%PDF-1.7 no page objects'')) = Inr (Some 0)
   \<and> \<not> (0::int) < 0"
  by (simp add: bare_env_resolver [of _ _ "''%PDF-1.7 no page objects''"])

text \<open>
  Claim C6, amended: every non-absent value the resolver returns is a non-negative
  integer, and it is the value of the first strategy, in the fixed order, that returns
  one; it can be zero.
\<close>

theorem resolver_first_value_nonneg:
  assumes "fst (get_pdf_page_count e p w) = Inr (Some v)"
  shows "0 \<le> v \<and>
     (let r1 = mdls_block e p w; r2 = pdfinfo_block e p (snd r1);
          r3 = marker_block e p (snd r2); r4 = slash_count_block e p (snd r3)
      in fst r1 = Inr (Some v) \<or>
         (\<forall>u. fst r1 \<noteq> Inr (Some u)) \<and>
         (fst r2 = Inr (Some v) \<or>
          (\<forall>u. fst r2 \<noteq> Inr (Some u)) \<and>
          (fst r3 = Inr (Some v) \<or>
           (\<forall>u. fst r3 \<noteq> Inr (Some u)) \<and> fst r4 = Inr (Some v))))"
proof -
  let ?r1 = "mdls_block e p w"
  let ?r2 = "pdfinfo_block e p (snd ?r1)"
  let ?r3 = "marker_block e p (snd ?r2)"
  let ?r4 = "slash_count_block e p (snd ?r3)"
  have first: "fst ?r1 = Inr (Some v) \<or>
         (\<forall>u. fst ?r1 \<noteq> Inr (Some u)) \<and>
         (fst ?r2 = Inr (Some v) \<or>
          (\<forall>u. fst ?r2 \<noteq> Inr (Some u)) \<and>
          (fst ?r3 = Inr (Some v) \<or>
           (\<forall>u. fst ?r3 \<noteq> Inr (Some u)) \<and> fst ?r4 = Inr (Some v)))"
  proof (cases "fst (except_pass ?r1)")
    case (Some v1)
    then have "v1 = v" using assms by (simp add: get_pdf_page_count_chain Let_def)
    then show ?thesis using Some by (simp add: except_pass_Some)
  next
    case n1: None
    show ?thesis
    proof (cases "fst (except_pass ?r2)")
      case (Some v2)
      then have "v2 = v" using assms n1 by (simp add: get_pdf_page_count_chain Let_def)
      then show ?thesis using Some n1 by (simp add: except_pass_Some except_pass_None)
    next
      case n2: None
      show ?thesis
      proof (cases "fst (except_pass ?r3)")
        case (Some v3)
        then have "v3 = v" using assms n1 n2 by (simp add: get_pdf_page_count_chain Let_def)
        then show ?thesis using Some n1 n2 by (simp add: except_pass_Some except_pass_None)
      next
        case n3: None
        show ?thesis
        proof (cases "fst (except_pass ?r4)")
          case (Some v4)
          then have "v4 = v" using assms n1 n2 n3 by (simp add: get_pdf_page_count_chain Let_def)
          then show ?thesis using Some n1 n2 n3 by (simp add: except_pass_Some except_pass_None)
        next
          case None
          then show ?thesis using assms n1 n2 n3 by (simp add: get_pdf_page_count_chain Let_def)
        qed
      qed
    qed
  qed
  then have "0 \<le> v"
    using mdls_block_nonneg pdfinfo_block_nonneg marker_block_nonneg slash_count_block_nonneg
    by blast
  with first show ?thesis by (simp add: Let_def)
qed

text \<open>Witness for C6 (amended): the value 0, returned by the marker strategy.\<close>

theorem resolver_first_value_nonneg_witness:
  "fst (get_pdf_page_count bare_env [''output.pdf''] (pdf_world ''%PDF-1.7 no page objects'')) = Inr (Some 0)
   \<and> (0::int) \<le> 0
   \<and> fst (marker_block bare_env [''output.pdf'']
        (snd (pdfinfo_block bare_env [''output.pdf'']
          (snd (mdls_block bare_env [''output.pdf''] (pdf_world ''%PDF-1.7 no page objects'')))))) = Inr (Some 0)"
proof -
  let ?p = "[''output.pdf'']"
  let ?w = "pdf_world ''%PDF-1.7 no page objects''"
  have h: "fst (get_pdf_page_count bare_env ?p ?w) = Inr (Some 0)"
    by (simp add: bare_env_resolver [of _ _ "''%PDF-1.7 no page objects''"])
  have r3: "fst (marker_block bare_env ?p (snd (pdfinfo_block bare_env ?p (snd (mdls_block bare_env ?p ?w)))))
     = Inr (Some 0)"
    by (simp add: bare_blocks fst_marker_block bare_read count_page count_pages)
  have "(0::int) \<le> 0"
    using resolver_first_value_nonneg [OF h] by (rule conjunct1)
  with h r3 show ?thesis by blast
qed

text \<open>
  Claim C10: once the first two strategies have given nothing, a file whose bytes are read
  always gets an integer from the marker strategy, so the resolver does not return
  \<open>None\<close>; the \<open>/Count\<close> strategy opens the file a second time exactly when the
  first read raised.
\<close>

theorem count_fallback_only_when_read_raises:
  assumes "\<forall>v. fst (mdls_block e p w) \<noteq> Inr (Some v)"
      and "\<forall>v. fst (pdfinfo_block e p (snd (mdls_block e p w))) \<noteq> Inr (Some v)"
  shows "(\<forall>content. fst (read_bytes e p (snd (pdfinfo_block e p (snd (mdls_block e p w))))) = Inr content
            \<longrightarrow> (\<exists>k. fst (get_pdf_page_count e p w) = Inr (Some k))) \<and>
         events (snd (get_pdf_page_count e p w)) =
           events w @ [Spawn [''mdls'', ''-name'', ''kMDItemNumberOfPages'', str_path p],
                       Spawn [''pdfinfo'', str_path p], Open p] @
           (case fst (read_bytes e p (snd (pdfinfo_block e p (snd (mdls_block e p w))))) of
              Inl x \<Rightarrow> [Open p] | Inr content \<Rightarrow> [])"
proof -
  let ?w2 = "snd (pdfinfo_block e p (snd (mdls_block e p w)))"
  have n1: "fst (except_pass (mdls_block e p w)) = None"
    using assms(1) by (simp add: except_pass_None)
  have n2: "fst (except_pass (pdfinfo_block e p (snd (mdls_block e p w)))) = None"
    using assms(2) by (simp add: except_pass_None)
  have ev2: "events ?w2 = events w @ [Spawn [''mdls'', ''-name'', ''kMDItemNumberOfPages'', str_path p],
                       Spawn [''pdfinfo'', str_path p]]"
    by (simp add: events_pdfinfo_block events_mdls_block)
  show ?thesis
  proof (cases "fst (read_bytes e p ?w2)")
    case (Inl x)
    then have n3: "fst (except_pass (marker_block e p ?w2)) = None"
      by (simp add: except_pass_None fst_marker_block)
    have "events (snd (get_pdf_page_count e p w)) =
        events (snd (slash_count_block e p (snd (marker_block e p ?w2))))"
      by (simp add: get_pdf_page_count_chain Let_def n1 n2 n3 split: option.splits)
    then show ?thesis using Inl
      by (simp add: snd_slash_count_block snd_marker_block events_read_bytes ev2)
  next
    case (Inr content)
    then obtain k where s3: "fst (except_pass (marker_block e p ?w2)) = Some k"
      by (simp add: except_pass_Some fst_marker_block)
    have "get_pdf_page_count e p w = (Inr (Some k), snd (marker_block e p ?w2))"
      by (simp add: get_pdf_page_count_chain Let_def n1 n2 s3)
    then show ?thesis using Inr
      by (simp add: snd_marker_block events_read_bytes ev2)
  qed
qed

text \<open>Witness for C10: a readable file with one page marker, without the two tools.\<close>

theorem count_fallback_only_when_read_raises_witness:
  "(\<forall>v. fst (mdls_block bare_env [''output.pdf''] (pdf_world ''/Type /Page'')) \<noteq> Inr (Some v)) \<and>
   (\<forall>v. fst (pdfinfo_block bare_env [''output.pdf'']
        (snd (mdls_block bare_env [''output.pdf''] (pdf_world ''/Type /Page'')))) \<noteq> Inr (Some v)) \<and>
   fst (read_bytes bare_env [''output.pdf''] (snd (pdfinfo_block bare_env [''output.pdf'']
        (snd (mdls_block bare_env [''output.pdf''] (pdf_world ''/Type /Page''))))))
      = Inr ''/Type /Page'' \<and>
   (\<exists>k. fst (get_pdf_page_count bare_env [''output.pdf''] (pdf_world ''/Type /Page'')) = Inr (Some k))"
proof -
  let ?w = "pdf_world ''/Type /Page''"
  let ?p = "[''output.pdf'']"
  have h1: "\<forall>v. fst (mdls_block bare_env ?p ?w) \<noteq> Inr (Some v)"
    by (simp add: bare_blocks)
  have h2: "\<forall>v. fst (pdfinfo_block bare_env ?p (snd (mdls_block bare_env ?p ?w))) \<noteq> Inr (Some v)"
    by (simp add: bare_blocks)
  have h3: "fst (read_bytes bare_env ?p (snd (pdfinfo_block bare_env ?p (snd (mdls_block bare_env ?p ?w)))))
      = Inr ''/Type /Page''"
    by (simp add: bare_blocks bare_read)
  have "\<exists>k. fst (get_pdf_page_count bare_env ?p ?w) = Inr (Some k)"
    using count_fallback_only_when_read_raises [OF h1 h2] h3 by blast
  with h1 h2 h3 show ?thesis by blast
qed

section \<open>Renaming and copying stage files\<close>

lemma rename_file_missing_source:
  assumes "files w src = None"
  shows "fst (rename_file e src dst w) = False"
  using assms
  by (auto simp: rename_file_def path_exists_def unlink_def rename_def Let_def
        split: option.splits sum.splits prod.splits if_splits)

lemma rename_file_missing_source_files:
  assumes "files w src = None" and "\<forall>t. fault e t = None"
  shows "files (snd (rename_file e src dst w)) = (files w)(dst := None)"
  using assms
  by (auto simp: rename_file_def path_exists_def unlink_def rename_def Let_def
        split: option.splits sum.splits prod.splits if_splits)

lemma copy_file_missing_source:
  assumes "files w src = None"
  shows "fst (copy_file e src dst w) = False \<and> files (snd (copy_file e src dst w)) = files w"
  using assms
  by (auto simp: copy_file_def mkdir_def copy2_def Let_def
        split: option.splits sum.splits prod.splits if_splits)

text \<open>
  Claim C1: a rename whose source file does not exist aborts the run and leaves the
  destination untouched. The first half holds (\<open>rename_file\<close> returns \<open>False\<close> and
  block 2 returns 1), the second does not: \<open>rename_file\<close> unlinks the destination
  before it tries the rename, so an \<open>input.json\<close> that was there before the failed
  rename is gone afterwards. (\<open>copy_file\<close>, by contrast, leaves every file as it was
  when its source is missing.) The run below starts from \<open>stale_world\<close>.
\<close>

theorem failed_rename_removes_destination:
  "files stale_world (cds_output_file bare_env) = None \<and>
   files stale_world (cds_renamed_file bare_env) = Some ''previous stage file'' \<and>
   fst (rename_file bare_env (cds_output_file bare_env) (cds_renamed_file bare_env) stale_world) = False \<and>
   files (snd (rename_file bare_env (cds_output_file bare_env) (cds_renamed_file bare_env) stale_world))
     (cds_renamed_file bare_env) = None \<and>
   fst (step2 bare_env stale_world) = Return 1"
proof -
  have src: "files stale_world (cds_output_file bare_env) = None"
    by (simp add: stale_world_def cds_output_file_def cds_renamed_file_def cds_folder_def)
  have dst: "files stale_world (cds_renamed_file bare_env) = Some ''previous stage file''"
    by (simp add: stale_world_def)
  have nofault: "\<forall>t. fault bare_env t = None" by simp
  have a: "fst (rename_file bare_env (cds_output_file bare_env) (cds_renamed_file bare_env) stale_world) = False"
    by (rule rename_file_missing_source [OF src])
  have b: "files (snd (rename_file bare_env (cds_output_file bare_env) (cds_renamed_file bare_env) stale_world))
     (cds_renamed_file bare_env) = None"
    by (simp add: rename_file_missing_source_files [OF src nofault])
  have "fst (rename_file bare_env (cds_output_file bare_env) (cds_renamed_file bare_env)
          (prints (banner ''# STEP 2: Renaming output.json to input.json in cds data population/output'') stale_world)) = False"
    by (rule rename_file_missing_source) (simp add: src)
  then have c: "fst (step2 bare_env stale_world) = Return 1"
    by (simp add: step2_def fst_check)
  from src dst a b c show ?thesis by blast
qed

section \<open>The stamping loop\<close>

lemma spawned_prints [simp]: "spawned (prints ss w) = spawned w"
  by (simp add: spawned_def)

lemma spawned_print [simp]: "spawned (print s w) = spawned w"
  by (simp add: spawned_def)

lemma spawned_log_Spawn [simp]: "spawned ((log (Spawn cmd) w)\<lparr>files := fs\<rparr>) = spawned w @ [cmd]"
  by (simp add: spawned_def log_def map_filter_def)

lemma spawned_move [simp]: "spawned (snd (move e src dst w)) = spawned w"
  by (simp add: move_def spawned_def log_def map_filter_def split: option.splits)

lemma fst_move:
  "fst (move e src dst w) =
     (case fault e (now w) of
        Some x \<Rightarrow> Inl x
      | None \<Rightarrow> (case files w src of None \<Rightarrow> Inl ''FileNotFoundError'' | Some content \<Rightarrow> Inr ()))"
  by (simp add: move_def split: option.splits)



lemma fst_stamp_page:
  "fst (stamp_page e n p w) =
     (case fst (spawn e (now w) (stamp_cmd e p) None None (files w)) of
        Inl x \<Rightarrow> Return 1
      | Inr result \<Rightarrow>
          if returncode result \<noteq> 0 then Return 1
          else (case fault e (Suc (now w)) of
                  Some x \<Rightarrow> Return 1
                | None \<Rightarrow>
                    (case snd (spawn e (now w) (stamp_cmd e p) None None (files w)) (temp_output e) of
                       None \<Rightarrow> Return 1
                     | Some out \<Rightarrow> Continue)))"
  by (simp add: stamp_page_def Let_def subprocess_run_eq case_prod_beta fst_move
        split: sum.splits option.splits)








lemma stamping_env_simps [simp]:
  "spawn stamping_env t cmd cwd inp fs =
     (Inr (CompletedProcess 0 [] []),
         fs(temp_output bare_env \<mapsto>
              (case fs (output_pdf_file bare_env) of None \<Rightarrow> [] | Some pdf \<Rightarrow> pdf) @ ''+barcode''))"
  "fault stamping_env t = None" "base_dir stamping_env = [''repo'']"
  by (simp_all add: stamping_env_def)

lemma stamping_env_paths [simp]:
  "temp_output stamping_env = temp_output bare_env"
  "output_pdf_file stamping_env = output_pdf_file bare_env"
  by (simp_all add: temp_output_def output_pdf_file_def test_output_folder_def)







section \<open>The HTTP blocks\<close>

lemma fst_run_command:
  "fst (run_command e cmd cwd inp w) =
     (case fst (spawn e (now w) cmd cwd inp (files w)) of
        Inl x \<Rightarrow> False
      | Inr result \<Rightarrow> returncode result = 0)"
  by (auto simp: run_command_def Let_def subprocess_run_eq case_prod_beta
        split: sum.splits option.splits)

lemma fst_mkdir: "fst (mkdir e p w) = (case fault e (now w) of Some x \<Rightarrow> Inl x | None \<Rightarrow> Inr ())"
  by (simp add: mkdir_def split: option.splits)

lemma snd_mkdir: "snd (mkdir e p w) = log (Mkdir p) w"
  by (simp add: mkdir_def split: option.splits)

lemma fst_read_text:
  "fst (read_text e p w) =
     (case fault e (now w) of
        Some x \<Rightarrow> Inl x
      | None \<Rightarrow> (case files w p of None \<Rightarrow> Inl ''FileNotFoundError'' | Some content \<Rightarrow> Inr content))"
  by (simp add: read_text_def split: option.splits)

lemma snd_read_text: "snd (read_text e p w) = log (Open p) w"
  by (simp add: read_text_def split: option.splits)

lemma fst_step10:
  "fst (step10 e w) =
     (case fst (spawn e (now w) (upload_cmd e) None None (files w)) of
        Inl x \<Rightarrow> Return 1
      | Inr result \<Rightarrow> if returncode result = 0 then Continue else Return 1)"
  by (simp add: step10_def fst_check fst_run_command split: sum.splits)

lemma fst_step11:
  "fst (step11 e w) =
     (case fault e (now w) of
        Some x \<Rightarrow> Uncaught x
      | None \<Rightarrow>
     (case fault e (Suc (now w)) of
        Some x \<Rightarrow> Uncaught x
      | None \<Rightarrow>
     (case files w (pdfgen_input_file e) of
        None \<Rightarrow> Uncaught ''FileNotFoundError''
      | Some json_content \<Rightarrow>
     (case fst (spawn e (Suc (Suc (now w))) (render_cmd e json_content) None None (files w)) of
        Inl x \<Rightarrow> Return 1
      | Inr result \<Rightarrow> if returncode result = 0 then Continue else Return 1))))"
  by (simp add: step11_def Let_def case_prod_beta fst_mkdir snd_mkdir fst_read_text snd_read_text
        subprocess_run_eq split: sum.split option.split)

lemma str_path_not_flag: "str_path p \<noteq> ''-f''" "str_path p \<noteq> ''--fail''"
  by (cases p; simp add: str_path_def)+

lemma no_fail_flag:
  "''-f'' \<notin> set (upload_cmd e)" "''--fail'' \<notin> set (upload_cmd e)"
  "''-f'' \<notin> set (render_cmd e json_content)" "''--fail'' \<notin> set (render_cmd e json_content)"
  "''-f'' \<notin> set (stamp_cmd e page)" "''--fail'' \<notin> set (stamp_cmd e page)"
  using str_path_not_flag [symmetric]
  by (simp_all add: upload_cmd_def render_cmd_def stamp_cmd_def storage_api_url_def
        render_api_url_def stamp_api_url_def)

lemma curl_completed_transfer:
  "''-f'' \<notin> set cmd \<Longrightarrow> ''--fail'' \<notin> set cmd \<Longrightarrow> curl_returncode cmd (Response http_status body) = 0"
  by (simp add: curl_returncode_def)

lemma http_env_simps [simp]:
  "spawn (http_env st) t cmd cwd inp fs =
     (Inr (CompletedProcess (curl_returncode cmd (Response st ''error page'')) ''error page'' []), fs)"
  "fault (http_env st) t = None" "base_dir (http_env st) = [''repo'']"
  by (simp_all add: http_env_def)

text \<open>
  Claim C9, as stated: in every HTTP block a response with an error status aborts the run
  at that block. It fails at the upload: the server answers 500, \<open>curl\<close> (started
  without \<open>--fail\<close>) completes the transfer and exits with 0, and block 10 falls
  through to block 11.
\<close>

theorem upload_http_500_counterexample:
  "curl_returncode (upload_cmd (http_env 500)) (Response 500 ''error page'') = 0 \<and>
   fst (step10 (http_env 500) empty_world) = Continue"
  by (simp add: fst_step10 curl_completed_transfer no_fail_flag)

text \<open>
  Claim C9, amended: in every HTTP block the exit status of the \<open>curl\<close> process
  decides. The upload and the rendering succeed exactly when \<open>curl\<close> is started and
  exits with 0; a stamp call succeeds when moreover its output file can be moved onto the
  working PDF; in every other case the block returns 1. None of the three commands carries
  \<open>-f\<close> or \<open>--fail\<close>, so \<open>curl\<close> exits with 0 for a completed transfer whatever the
  HTTP status of the response.
\<close>

theorem http_step_success_is_curl_exit_status:
  "(fst (step10 e w) =
      (case fst (spawn e (now w) (upload_cmd e) None None (files w)) of
         Inl x \<Rightarrow> Return 1
       | Inr result \<Rightarrow> if returncode result = 0 then Continue else Return 1)) \<and>
   (fault e (now w) = None \<and> fault e (Suc (now w)) = None \<and>
    files w (pdfgen_input_file e) = Some json_content \<longrightarrow>
    fst (step11 e w) =
      (case fst (spawn e (Suc (Suc (now w))) (render_cmd e json_content) None None (files w)) of
         Inl x \<Rightarrow> Return 1
       | Inr result \<Rightarrow> if returncode result = 0 then Continue else Return 1)) \<and>
   (fst (stamp_page e page_count page w) =
      (case fst (spawn e (now w) (stamp_cmd e page) None None (files w)) of
         Inl x \<Rightarrow> Return 1
       | Inr result \<Rightarrow>
           if returncode result \<noteq> 0 then Return 1
           else (case fault e (Suc (now w)) of
                   Some x \<Rightarrow> Return 1
                 | None \<Rightarrow>
                     (case snd (spawn e (now w) (stamp_cmd e page) None None (files w)) (temp_output e) of
                        None \<Rightarrow> Return 1
                      | Some out \<Rightarrow> Continue)))) \<and>
   curl_returncode (upload_cmd e) (Response http_status body) = 0 \<and>
   curl_returncode (render_cmd e json_content) (Response http_status body) = 0 \<and>
   curl_returncode (stamp_cmd e page) (Response http_status body) = 0"
  by (simp add: fst_step10 fst_step11 fst_stamp_page curl_completed_transfer no_fail_flag)

text \<open>Witness for C9 (amended): the rendering service answers 404 and block 11 succeeds.\<close>

theorem http_step_success_is_curl_exit_status_witness:
  "fault (http_env 404) (now staged_world) = None \<and>
   fault (http_env 404) (Suc (now staged_world)) = None \<and>
   files staged_world (pdfgen_input_file (http_env 404)) = Some ''{}'' \<and>
   fst (step11 (http_env 404) staged_world) = Continue"
proof -
  let ?e = "http_env 404"
  let ?w = "staged_world"
  have h: "fault ?e (now ?w) = None \<and> fault ?e (Suc (now ?w)) = None \<and>
           files ?w (pdfgen_input_file ?e) = Some ''{}''"
    by (simp add: staged_world_def)
  have rc: "curl_returncode (render_cmd ?e ''{}'') (Response 404 ''error page'') = 0"
    using http_step_success_is_curl_exit_status [of ?e ?w "''{}''" 1 1 404 "''error page''"] by blast
  have "fst (step11 ?e ?w) =
      (case fst (spawn ?e (Suc (Suc (now ?w))) (render_cmd ?e ''{}'') None None (files ?w)) of
         Inl x \<Rightarrow> Return 1
       | Inr result \<Rightarrow> if returncode result = 0 then Continue else Return 1)"
    using http_step_success_is_curl_exit_status [of ?e ?w "''{}''" 1 1 404 "''error page''"] h by blast
  then have "fst (step11 ?e ?w) = Continue" using rc by simp
  with h show ?thesis by blast
qed

section \<open>The orchestrator: exit code and first failure\<close>

lemma console_prints [simp]: "console (prints ss w) = console w @ ss"
  by (simp add: prints_def)

lemma console_print [simp]: "console (print s w) = console w @ [s]"
  by (simp add: print_def)

lemma console_log [simp]: "console (log ev w) = console w"
  by (simp add: log_def)

lemma console_subprocess_run [simp]: "console (snd (subprocess_run e cmd cwd inp w)) = console w"
  by (simp add: subprocess_run_eq)

lemma console_path_exists [simp]: "console (snd (path_exists e p w)) = console w"
  by (simp add: path_exists_def split: option.split)

lemma console_unlink [simp]: "console (snd (unlink e p w)) = console w"
  by (simp add: unlink_def split: option.split)

lemma console_rename [simp]: "console (snd (rename e src dst w)) = console w"
  by (simp add: rename_def split: option.split)

lemma console_mkdir [simp]: "console (snd (mkdir e p w)) = console w"
  by (simp add: mkdir_def split: option.split)

lemma console_copy2 [simp]: "console (snd (copy2 e src dst w)) = console w"
  by (simp add: copy2_def split: option.split)

lemma console_move [simp]: "console (snd (move e src dst w)) = console w"
  by (simp add: move_def split: option.split)

lemma console_read_text [simp]: "console (snd (read_text e p w)) = console w"
  by (simp add: read_text_def split: option.split)

lemma console_read_bytes [simp]: "console (snd (read_bytes e p w)) = console w"
  by (simp add: read_bytes_def split: option.split)




lemma is_error_line_ERROR [simp]:
  "is_error_line (CHR ''E'' # CHR ''R'' # CHR ''R'' # CHR ''O'' # CHR ''R'' # CHR '':'' # x)"
  by (simp add: is_error_line_def)


















lemma console_mdls_block [simp]: "console (snd (mdls_block e p w)) = console w"
  by (simp add: mdls_block_def case_prod_beta split: sum.split option.split)

lemma console_pdfinfo_block [simp]: "console (snd (pdfinfo_block e p w)) = console w"
  by (simp add: pdfinfo_block_def case_prod_beta split: sum.split option.split)

lemma console_get_pdf_page_count [simp]:
  "console (snd (get_pdf_page_count e p w)) = console w"
  by (simp add: get_pdf_page_count_chain Let_def snd_marker_block snd_slash_count_block
        split: option.split)







declare run_steps.simps(2) [simp del]


lemma length_pipeline [simp]: "length (pipeline e) = 12"
  by (simp add: pipeline_def)


lemma merge_fails_env_simps [simp]:
  "spawn merge_fails_env t cmd cwd inp fs =
     (if cmd = [''python3'', str_path (merge_script bare_env)]
        then (Inr (CompletedProcess 2 [] ''merge failed''), fs)
        else (Inr (CompletedProcess 0 [] []), fs(cds_output_file bare_env \<mapsto> ''{}'')))"
  "fault merge_fails_env t = None" "base_dir merge_fails_env = [''repo'']"
  by (simp_all add: merge_fails_env_def)



text \<open>A run in which all twelve blocks succeed, evaluated.\<close>

lemma happy_env_simps [simp]:
  "fault happy_env t = None" "base_dir happy_env = [''repo'']"
  by (simp_all add: happy_env_def)





end
